theory Spec2Isabelle
  imports Main
begin

section \<open>JavaScript values\<close>

text \<open>
  The code-execution tool of \<^verbatim>\<open>lib/tool-wrapper.ts\<close> handles values that come out of
  an orchestration script, so the development starts with the values themselves. The
  universe is plain data: primitives, arrays and plain objects whose properties are own,
  enumerable data properties, listed in the order \<^verbatim>\<open>Object.entries\<close> yields them.
  Exotic objects (proxies, accessors, \<^verbatim>\<open>toJSON\<close> methods, cyclic references) are outside it.
  Numbers are the integer-valued ones in the safe range together with \<^verbatim>\<open>NaN\<close> and the two
  infinities.
\<close>

datatype jsnum = NumInt int | NaN | PosInfinity | NegInfinity

datatype jsval =
    JUndefined
  | JNull
  | JBool bool
  | JNum jsnum
  | JStr string
  | JBigInt int
  | JSymbol string
  | JFunction string
  | JArray "jsval list"
  | JObject "(string \<times> jsval) list"

datatype js_error = Error string | TypeError string | SyntaxError string

fun message :: "js_error \<Rightarrow> string" where
  "message (Error m) = m"
| "message (TypeError m) = m"
| "message (SyntaxError m) = m"

text \<open>Truthiness (\<^verbatim>\<open>ToBoolean\<close>), as used by \<^verbatim>\<open>||\<close> and \<^verbatim>\<open>!\<close>.\<close>

fun truthy :: "jsval \<Rightarrow> bool" where
  "truthy JUndefined = False"
| "truthy JNull = False"
| "truthy (JBool b) = b"
| "truthy (JNum (NumInt i)) = (i \<noteq> 0)"
| "truthy (JNum NaN) = False"
| "truthy (JNum _) = True"
| "truthy (JStr s) = (s \<noteq> [])"
| "truthy (JBigInt i) = (i \<noteq> 0)"
| "truthy _ = True"

fun typeof :: "jsval \<Rightarrow> string" where
  "typeof JUndefined = ''undefined''"
| "typeof JNull = ''object''"
| "typeof (JBool _) = ''boolean''"
| "typeof (JNum _) = ''number''"
| "typeof (JStr _) = ''string''"
| "typeof (JBigInt _) = ''bigint''"
| "typeof (JSymbol _) = ''symbol''"
| "typeof (JFunction _) = ''function''"
| "typeof (JArray _) = ''object''"
| "typeof (JObject _) = ''object''"

subsection \<open>Decimal rendering\<close>

definition digit_char :: "nat \<Rightarrow> char" where
  "digit_char d = ''0123456789'' ! d"

function show_nat :: "nat \<Rightarrow> string" where
  "show_nat n = (if n < 10 then [digit_char n] else show_nat (n div 10) @ [digit_char (n mod 10)])"
  by pat_completeness auto
termination
  by (relation "measure id") auto

declare show_nat.simps [simp del]

definition show_int :: "int \<Rightarrow> string" where
  "show_int i = (if i < 0 then CHR ''-'' # show_nat (nat (- i)) else show_nat (nat i))"

fun show_num :: "jsnum \<Rightarrow> string" where
  "show_num (NumInt i) = show_int i"
| "show_num NaN = ''NaN''"
| "show_num PosInfinity = ''Infinity''"
| "show_num NegInfinity = ''-Infinity''"

subsection \<open>The JSON round trip\<close>

text \<open>
  \<open>json_value\<close> is what \<^verbatim>\<open>JSON.stringify\<close> keeps of a value, read back by
  \<^verbatim>\<open>JSON.parse\<close>: \<open>None\<close> where stringify yields \<^verbatim>\<open>undefined\<close> (for
  \<^verbatim>\<open>undefined\<close>, functions and symbols), a \<^verbatim>\<open>TypeError\<close> for a BigInt anywhere in
  the value. Inside an array such a value becomes \<^verbatim>\<open>null\<close>, inside an object the
  property is dropped; non-finite numbers become \<^verbatim>\<open>null\<close>.
\<close>

fun json_value :: "jsval \<Rightarrow> js_error + jsval option"
  and json_elements :: "jsval list \<Rightarrow> js_error + jsval list"
  and json_properties :: "(string \<times> jsval) list \<Rightarrow> js_error + (string \<times> jsval) list"
where
  "json_value JUndefined = Inr None"
| "json_value JNull = Inr (Some JNull)"
| "json_value (JBool b) = Inr (Some (JBool b))"
| "json_value (JNum n) = Inr (Some (case n of NumInt i \<Rightarrow> JNum n | _ \<Rightarrow> JNull))"
| "json_value (JStr s) = Inr (Some (JStr s))"
| "json_value (JBigInt i) = Inl (TypeError ''Do not know how to serialize a BigInt'')"
| "json_value (JSymbol d) = Inr None"
| "json_value (JFunction src) = Inr None"
| "json_value (JArray xs) =
     (case json_elements xs of Inl e \<Rightarrow> Inl e | Inr ys \<Rightarrow> Inr (Some (JArray ys)))"
| "json_value (JObject ps) =
     (case json_properties ps of Inl e \<Rightarrow> Inl e | Inr qs \<Rightarrow> Inr (Some (JObject qs)))"
| "json_elements [] = Inr []"
| "json_elements (x # xs) =
     (case json_value x of
        Inl e \<Rightarrow> Inl e
      | Inr v \<Rightarrow>
          (case json_elements xs of
             Inl e \<Rightarrow> Inl e
           | Inr ys \<Rightarrow> Inr ((case v of None \<Rightarrow> JNull | Some y \<Rightarrow> y) # ys)))"
| "json_properties [] = Inr []"
| "json_properties ((k, x) # ps) =
     (case json_value x of
        Inl e \<Rightarrow> Inl e
      | Inr v \<Rightarrow>
          (case json_properties ps of
             Inl e \<Rightarrow> Inl e
           | Inr qs \<Rightarrow> Inr (case v of None \<Rightarrow> qs | Some y \<Rightarrow> (k, y) # qs)))"

text \<open>
  \<^verbatim>\<open>JSON.parse(JSON.stringify(v))\<close>. When stringify yields \<^verbatim>\<open>undefined\<close>, parse
  receives the text \<^verbatim>\<open>undefined\<close> and throws a \<^verbatim>\<open>SyntaxError\<close>.
\<close>

definition json_copy :: "jsval \<Rightarrow> js_error + jsval" where
  "json_copy v =
     (case json_value v of
        Inl e \<Rightarrow> Inl e
      | Inr None \<Rightarrow> Inl (SyntaxError ''undefined is not valid JSON'')
      | Inr (Some c) \<Rightarrow> Inr c)"

subsection \<open>Conversion to strings\<close>

text \<open>
  \<open>js_ToString\<close> is the abstract operation \<^verbatim>\<open>ToString\<close>: it throws on a symbol. An
  array is joined with commas, \<^verbatim>\<open>undefined\<close> and \<^verbatim>\<open>null\<close> elements giving the
  empty string; a plain object is \<^verbatim>\<open>[object Object]\<close>; a function is its source text.
  \<open>js_String\<close> is the function \<^verbatim>\<open>String(v)\<close>, which describes a symbol instead of
  throwing.
\<close>

fun js_ToString :: "jsval \<Rightarrow> js_error + string"
  and join_elements :: "jsval list \<Rightarrow> js_error + string"
where
  "js_ToString JUndefined = Inr ''undefined''"
| "js_ToString JNull = Inr ''null''"
| "js_ToString (JBool b) = Inr (if b then ''true'' else ''false'')"
| "js_ToString (JNum n) = Inr (show_num n)"
| "js_ToString (JStr s) = Inr s"
| "js_ToString (JBigInt i) = Inr (show_int i)"
| "js_ToString (JSymbol d) = Inl (TypeError ''Cannot convert a Symbol value to a string'')"
| "js_ToString (JFunction src) = Inr src"
| "js_ToString (JArray xs) = join_elements xs"
| "js_ToString (JObject ps) = Inr ''[object Object]''"
| "join_elements [] = Inr []"
| "join_elements (x # xs) =
     (case (if x = JUndefined \<or> x = JNull then Inr [] else js_ToString x) of
        Inl e \<Rightarrow> Inl e
      | Inr s \<Rightarrow>
          (if xs = [] then Inr s
           else (case join_elements xs of
                   Inl e \<Rightarrow> Inl e
                 | Inr r \<Rightarrow> Inr (s @ '','' @ r))))"

definition js_String :: "jsval \<Rightarrow> js_error + string" where
  "js_String v =
     (case v of
        JSymbol d \<Rightarrow> Inr (''Symbol('' @ d @ '')'')
      | _ \<Rightarrow> js_ToString v)"

subsection \<open>Own properties\<close>

text \<open>
  \<^verbatim>\<open>Object.entries\<close> and \<^verbatim>\<open>Object.keys\<close>: an array (and a string) has its indices as
  keys, a plain object its properties, every other primitive none.
\<close>

fun object_entries :: "jsval \<Rightarrow> (string \<times> jsval) list" where
  "object_entries (JArray xs) = zip (map show_nat [0..<length xs]) xs"
| "object_entries (JObject ps) = ps"
| "object_entries (JStr s) = zip (map show_nat [0..<length s]) (map (\<lambda>c. JStr [c]) s)"
| "object_entries _ = []"

definition object_keys :: "jsval \<Rightarrow> string list" where
  "object_keys v = map fst (object_entries v)"

section \<open>The records of a run\<close>

text \<open>
  One traced capability call, with the fields that \<^verbatim>\<open>createCodeExecutionTool\<close> reads.
  \<open>result\<close> is \<open>JUndefined\<close> when the call recorded none; \<open>error\<close> is the
  recorded \<^verbatim>\<open>Error\<close>, if any.
\<close>

record tool_call =
  toolName :: string
  args :: jsval
  result :: jsval
  error :: "js_error option"
  isMCP :: bool
  executionTimeMs :: nat

text \<open>What \<^verbatim>\<open>sandbox.execute\<close> resolves to.\<close>

record exec_result =
  "output" :: jsval
  toolCalls :: "tool_call list"

section \<open>The output of the code-execution tool\<close>

text \<open>
  Lines 173 to 192: the value built from the trace when the script returned
  \<^verbatim>\<open>undefined\<close> or \<^verbatim>\<open>null\<close>.
\<close>

definition allResults_entry :: "tool_call \<Rightarrow> jsval" where
  "allResults_entry tc =
     JObject [(''tool'', JStr (toolName tc)),
              (''success'', JBool (error tc = None)),
              (''result'', result tc)]"

definition from_tool_calls :: "tool_call list \<Rightarrow> jsval" where
  "from_tool_calls tcs =
     (if length tcs > 0 then
        (let lastCall = last tcs;
             allResults = map allResults_entry tcs
         in if length tcs = 1 then
              (if truthy (result lastCall) then result lastCall
               else JObject [(''success'', JBool (error lastCall = None)),
                             (''message'', JStr ''Tool executed'')])
            else
              JObject [(''message'', JStr (''Executed '' @ show_nat (length tcs) @ '' tool calls'')),
                       (''results'', JArray allResults),
                       (''lastResult'', result lastCall)])
      else JObject [(''message'', JStr ''Code executed but returned no result''),
                    (''success'', JBool True)])"

text \<open>Lines 167 to 195: the body of the inner \<^verbatim>\<open>try\<close>.\<close>

definition try_serialize :: "jsval \<Rightarrow> tool_call list \<Rightarrow> js_error + jsval" where
  "try_serialize out tcs =
     (if out = JUndefined \<or> out = JNull then Inr (from_tool_calls tcs)
      else json_copy out)"

text \<open>
  Lines 203 to 211: the loop that copies the properties one by one, a property whose
  copy throws being replaced by \<^verbatim>\<open>String(value)\<close>. An exception of \<^verbatim>\<open>String\<close>
  itself leaves the loop. The assignment \<^verbatim>\<open>safeOutput[key] = ...\<close> on a key
  \<^verbatim>\<open>__proto__\<close> reaches the prototype setter and creates no property.
\<close>

fun safe_properties :: "(string \<times> jsval) list \<Rightarrow> js_error + (string \<times> jsval) list" where
  "safe_properties [] = Inr []"
| "safe_properties ((key, val) # rest) =
     (case (case json_copy val of
              Inr c \<Rightarrow> Inr c
            | Inl _ \<Rightarrow> (case js_String val of Inl e \<Rightarrow> Inl e | Inr s \<Rightarrow> Inr (JStr s))) of
        Inl e \<Rightarrow> Inl e
      | Inr v \<Rightarrow>
          (case safe_properties rest of
             Inl e \<Rightarrow> Inl e
           | Inr vs \<Rightarrow> Inr (if key = ''__proto__'' then vs else (key, v) # vs)))"

text \<open>Lines 196 to 222: the handler of the inner \<^verbatim>\<open>try\<close>.\<close>

definition on_serialize_error :: "jsval \<Rightarrow> js_error + jsval" where
  "on_serialize_error out =
     (if typeof out = ''object'' \<and> out \<noteq> JNull then
        (case safe_properties (object_entries out) of
           Inr safeOutput \<Rightarrow> Inr (JObject safeOutput)
         | Inl _ \<Rightarrow>
             Inr (JObject [(''message'', JStr ''Output contained non-serializable data''),
                           (''type'', JStr (typeof out)),
                           (''keys'', JArray (map JStr (object_keys out)))]))
      else
        (case js_String out of
           Inl e \<Rightarrow> Inl e
         | Inr s \<Rightarrow> Inr (JObject [(''value'', JStr s), (''type'', JStr (typeof out))])))"

text \<open>Lines 166 to 222: \<^verbatim>\<open>serializableOutput\<close>.\<close>

definition serializableOutput :: "jsval \<Rightarrow> tool_call list \<Rightarrow> js_error + jsval" where
  "serializableOutput out tcs =
     (case try_serialize out tcs of
        Inr v \<Rightarrow> Inr v
      | Inl serializeError \<Rightarrow> on_serialize_error out)"

section \<open>The metadata of a run\<close>

text \<open>
  The estimate read from \<^verbatim>\<open>sandbox.getComprehensiveTokenSavings()\<close>, with the fields
  that the tool copies into its metadata.
\<close>

record token_savings =
  intermediateResultTokens :: int
  roundTripContextTokens :: int
  toolCallOverheadTokens :: int
  llmDecisionTokens :: int
  totalSaved :: int
  breakdown :: string

record token_savings_breakdown =
  intermediateResults :: int
  roundTripContext :: int
  toolCallOverhead :: int
  llmDecisions :: int

text \<open>
  One entry of \<^verbatim>\<open>sandboxToolCalls\<close> (lines 243 to 250); the prefix keeps its fields
  apart from those of \<open>tool_call\<close>. \<open>stc_error\<close> is \<^verbatim>\<open>c.error?.message\<close>.
\<close>

record sandbox_tool_call =
  stc_toolName :: string
  stc_args :: jsval
  stc_result :: jsval
  stc_error :: "string option"
  stc_isMCP :: bool
  stc_executionTimeMs :: nat

record metadata =
  toolCallCount :: nat
  localToolCallCount :: nat
  mcpToolCallCount :: nat
  intermediateTokensSaved :: int
  totalTokensSaved :: int
  tokenSavingsBreakdown :: token_savings_breakdown
  savingsExplanation :: string
  toolsUsed :: "string list"
  mcpToolsUsed :: "string list"
  localToolsUsed :: "string list"
  run_executionTimeMs :: nat
  sandboxToolCalls :: "sandbox_tool_call list"

text \<open>The object returned by the tool (lines 224 to 252).\<close>

record tool_output =
  tool_result :: jsval
  tool_metadata :: metadata

text \<open>
  \<^verbatim>\<open>[...new Set(xs)]\<close>: the set takes the elements in order and ignores one it already
  holds, so each name stays at its first occurrence.
\<close>

definition new_Set :: "'a list \<Rightarrow> 'a list" where
  "new_Set xs = fold (\<lambda>x acc. if x \<in> set acc then acc else acc @ [x]) xs []"

definition sandboxToolCalls_entry :: "tool_call \<Rightarrow> sandbox_tool_call" where
  "sandboxToolCalls_entry c =
     \<lparr>stc_toolName = toolName c,
      stc_args = args c,
      stc_result = result c,
      stc_error = map_option message (error c),
      stc_isMCP = isMCP c,
      stc_executionTimeMs = executionTimeMs c\<rparr>"

definition make_metadata :: "tool_call list \<Rightarrow> token_savings \<Rightarrow> nat \<Rightarrow> metadata" where
  "make_metadata tcs tokenSavings executionTime =
     (let mcpCalls = filter (\<lambda>tc. isMCP tc) tcs;
          localCalls = filter (\<lambda>tc. \<not> isMCP tc) tcs
      in \<lparr>toolCallCount = length tcs,
          localToolCallCount = length localCalls,
          mcpToolCallCount = length mcpCalls,
          intermediateTokensSaved = intermediateResultTokens tokenSavings,
          totalTokensSaved = totalSaved tokenSavings,
          tokenSavingsBreakdown =
            \<lparr>intermediateResults = intermediateResultTokens tokenSavings,
             roundTripContext = roundTripContextTokens tokenSavings,
             toolCallOverhead = toolCallOverheadTokens tokenSavings,
             llmDecisions = llmDecisionTokens tokenSavings\<rparr>,
          savingsExplanation = breakdown tokenSavings,
          toolsUsed = new_Set (map toolName tcs),
          mcpToolsUsed = new_Set (map toolName mcpCalls),
          localToolsUsed = new_Set (map toolName localCalls),
          run_executionTimeMs = executionTime,
          sandboxToolCalls = map sandboxToolCalls_entry tcs\<rparr>)"

section \<open>The sandbox as the tool sees it\<close>

text \<open>
  The wrapper imports \<^verbatim>\<open>ToolOrchestrationSandbox\<close> from \<^verbatim>\<open>lib/sandbox\<close> and only calls
  its methods, so the tool is modelled over any sandbox: a state \<open>'s\<close> and the three methods that
  \<^verbatim>\<open>createCodeExecutionTool\<close> calls. The promise returned by \<^verbatim>\<open>execute\<close> is described
  by how it settles, and when, in milliseconds after the race of line 147 starts;
  \<open>Pending\<close> is a promise that never settles. The state returned with it is the
  sandbox's state at the moment the race is decided.
\<close>

datatype 'a promise = Resolves nat 'a | Rejects nat js_error | Pending

record 's sandbox =
  sandbox_execute :: "string \<Rightarrow> 's \<Rightarrow> exec_result promise \<times> 's"
  getComprehensiveTokenSavings :: "'s \<Rightarrow> token_savings"
  reset :: "'s \<Rightarrow> 's"

text \<open>
  Lines 147 to 152: \<^verbatim>\<open>Promise.race\<close> against a timer of 25000 ms that rejects. The
  sandbox's promise wins when it settles before the timer fires, and the elapsed time
  reported on line 154 is then its settling time. A promise that settles in the very
  millisecond of the timer is ordered by the host's event loop; the model gives that
  instant to the timer, and no statement below depends on the choice.
\<close>

definition timeout_ms :: nat where
  "timeout_ms = 25000"

definition timeout_error :: js_error where
  "timeout_error = Error ''Code execution timeout after 25 seconds''"

definition race_timeout :: "'a promise \<Rightarrow> js_error + 'a \<times> nat" where
  "race_timeout p =
     (case p of
        Resolves t v \<Rightarrow> if t < timeout_ms then Inr (v, t) else Inl timeout_error
      | Rejects t e \<Rightarrow> if t < timeout_ms then Inl e else Inl timeout_error
      | Pending \<Rightarrow> Inl timeout_error)"

text \<open>Lines 146 to 252: the body of the outer \<^verbatim>\<open>try\<close>.\<close>

definition try_execute :: "'s sandbox \<Rightarrow> exec_result promise \<Rightarrow> 's \<Rightarrow> js_error + tool_output" where
  "try_execute sb p s =
     (case race_timeout p of
        Inl e \<Rightarrow> Inl e
      | Inr (r, executionTime) \<Rightarrow>
          (let tokenSavings = getComprehensiveTokenSavings sb s
           in case serializableOutput (output r) (toolCalls r) of
                Inl e \<Rightarrow> Inl e
              | Inr v \<Rightarrow>
                  Inr \<lparr>tool_result = v,
                       tool_metadata = make_metadata (toolCalls r) tokenSavings executionTime\<rparr>))"

text \<open>
  Lines 143 to 260: \<^verbatim>\<open>execute\<close> of the code-execution tool. The handler rethrows with
  the prefixed message, and \<^verbatim>\<open>finally\<close> resets the sandbox on both ways out. The
  function returns what the caller receives and the state the sandbox is left in.
\<close>

definition execute :: "'s sandbox \<Rightarrow> string \<Rightarrow> 's \<Rightarrow> (js_error + tool_output) \<times> 's" where
  "execute sb code s =
     (let (p, s1) = sandbox_execute sb code s
      in (case try_execute sb p s1 of
            Inr r \<Rightarrow> Inr r
          | Inl err \<Rightarrow> Inl (Error (''Code execution failed: '' @ message err)),
          reset sb s1))"

section \<open>The constructor of \<^verbatim>\<open>ProgrammaticToolCaller\<close>\<close>

text \<open>
  A tool definition, as far as the constructor looks at it: \<open>tool_execute\<close> is
  \<^verbatim>\<open>toolDef.execute\<close>, \<open>None\<close> when the property is missing. The tool set is the list
  \<^verbatim>\<open>Object.entries(tools)\<close>.
\<close>

record 'f tool_def =
  tool_execute :: "'f option"

definition startsWith :: "string \<Rightarrow> string \<Rightarrow> bool" where
  "startsWith name p = (take (length p) name = p)"

text \<open>
  Modelled from the spec: \<^verbatim>\<open>createMCPBridge\<close> and \<^verbatim>\<open>MCPToolBridge.getToolNames\<close> of
  \<^verbatim>\<open>lib/mcp-bridge\<close>, which the wrapper imports. Bridged capability names are namespaced
  with the prefix: the bridge holds the tools of the set whose name starts with
  \<^verbatim>\<open>mcp_\<close>, and there is no bridge (\<^verbatim>\<open>null\<close>) when the set has none.
\<close>

record mcp_bridge =
  getToolNames :: "string list"

definition createMCPBridge :: "(string \<times> 'f tool_def) list \<Rightarrow> mcp_bridge option" where
  "createMCPBridge tools =
     (let names = filter (\<lambda>name. startsWith name ''mcp_'') (map fst tools)
      in if names = [] then None else Some \<lparr>getToolNames = names\<rparr>)"

record 'f programmatic_tool_caller =
  tools :: "(string \<times> 'f tool_def) list"
  toolRegistry :: "string \<rightharpoonup> 'f"
  mcpBridge :: "mcp_bridge option"
  mcpToolNames :: "string list"
  localToolNames :: "string list"

text \<open>Lines 41 to 50: the loop over the entries, on the registry and the list of local names.\<close>

fun register_tools ::
  "(string \<times> 'f tool_def) list \<Rightarrow> (string \<rightharpoonup> 'f) \<times> string list \<Rightarrow> (string \<rightharpoonup> 'f) \<times> string list"
where
  "register_tools [] acc = acc"
| "register_tools ((name, toolDef) # rest) (registry, names) =
     (case tool_execute toolDef of
        Some f \<Rightarrow>
          (if \<not> startsWith name ''mcp_''
           then register_tools rest (registry(name \<mapsto> f), names @ [name])
           else register_tools rest (registry, names))
      | None \<Rightarrow> register_tools rest (registry, names))"

text \<open>Lines 23 to 60. The timeout is only handed on to the sandbox.\<close>

definition constructor :: "(string \<times> 'f tool_def) list \<Rightarrow> 'f programmatic_tool_caller" where
  "constructor ts =
     (let bridge = createMCPBridge ts;
          mcpNames = (case bridge of Some b \<Rightarrow> getToolNames b | None \<Rightarrow> []);
          (registry, localNames) = register_tools ts (Map.empty, [])
      in \<lparr>tools = ts,
          toolRegistry = registry,
          mcpBridge = bridge,
          mcpToolNames = mcpNames,
          localToolNames = localNames\<rparr>)"

definition getAllToolNames :: "'f programmatic_tool_caller \<Rightarrow> string list" where
  "getAllToolNames w = localToolNames w @ mcpToolNames w"

section \<open>The evaluator behind the sandbox\<close>

text \<open>
  What one script does when it runs: the records of the capability calls that complete
  before the race of the tool is decided, in completion order; how the script ends; and
  when, in milliseconds (\<open>None\<close>: never).
\<close>

datatype script_end = Returns jsval | Throws js_error

record script_run =
  calls :: "tool_call list"
  ending :: script_end
  settles :: "nat option"

record evaluator =
  trace :: "tool_call list"

text \<open>
  Modelled from the spec: \<^verbatim>\<open>ToolOrchestrationSandbox.execute\<close> of \<^verbatim>\<open>lib/sandbox\<close>.
  Every capability call that completes appends one record to the trace; the script's
  returned value becomes the output, delivered with the trace; an uncaught error of
  the script rejects with that error, the records staying in the trace. The meaning of
  script texts is the parameter \<open>sem\<close>.
\<close>

definition evaluator_execute ::
  "(string \<Rightarrow> script_run) \<Rightarrow> string \<Rightarrow> evaluator \<Rightarrow> exec_result promise \<times> evaluator"
where
  "evaluator_execute sem code ev =
     (let r = sem code;
          ev' = ev\<lparr>trace := trace ev @ calls r\<rparr>
      in (case settles r of
            None \<Rightarrow> Pending
          | Some t \<Rightarrow>
              (case ending r of
                 Returns v \<Rightarrow> Resolves t \<lparr>output = v, toolCalls = trace ev'\<rparr>
               | Throws e \<Rightarrow> Rejects t e),
          ev'))"

text \<open>
  Modelled from the spec: \<^verbatim>\<open>ToolOrchestrationSandbox.reset\<close> of \<^verbatim>\<open>lib/sandbox\<close>. The
  evaluator clears its trace before it accepts the next script.
\<close>

definition evaluator_reset :: "evaluator \<Rightarrow> evaluator" where
  "evaluator_reset ev = ev\<lparr>trace := []\<rparr>"

text \<open>
  The four component formulas of the token-savings heuristic and its explanation, which
  the spec leaves open, as functions of the trace.
\<close>

record heuristic =
  intermediate_of :: "tool_call list \<Rightarrow> int"
  round_trip_of :: "tool_call list \<Rightarrow> int"
  overhead_of :: "tool_call list \<Rightarrow> int"
  decisions_of :: "tool_call list \<Rightarrow> int"
  explanation_of :: "tool_call list \<Rightarrow> string"

text \<open>
  Modelled from the spec: \<^verbatim>\<open>ToolOrchestrationSandbox.getComprehensiveTokenSavings\<close> of
  \<^verbatim>\<open>lib/sandbox\<close>. The estimate has four components derived from the completed trace,
  zero calls give zero in every component, and the total is the sum of the four.
\<close>

definition estimate_savings :: "heuristic \<Rightarrow> tool_call list \<Rightarrow> token_savings" where
  "estimate_savings h tcs =
     (let ir = (if tcs = [] then 0 else intermediate_of h tcs);
          rt = (if tcs = [] then 0 else round_trip_of h tcs);
          ov = (if tcs = [] then 0 else overhead_of h tcs);
          dc = (if tcs = [] then 0 else decisions_of h tcs)
      in \<lparr>intermediateResultTokens = ir,
          roundTripContextTokens = rt,
          toolCallOverheadTokens = ov,
          llmDecisionTokens = dc,
          totalSaved = ir + rt + ov + dc,
          breakdown = explanation_of h tcs\<rparr>)"

definition evaluator_sandbox :: "(string \<Rightarrow> script_run) \<Rightarrow> heuristic \<Rightarrow> evaluator sandbox" where
  "evaluator_sandbox sem h =
     \<lparr>sandbox_execute = evaluator_execute sem,
      getComprehensiveTokenSavings = (\<lambda>ev. estimate_savings h (trace ev)),
      reset = evaluator_reset\<rparr>"

text \<open>What the caller receives as the result; \<open>None\<close> when the call throws.\<close>

definition returned_result :: "(js_error + tool_output) \<times> 's \<Rightarrow> jsval option" where
  "returned_result x = (case fst x of Inr out \<Rightarrow> Some (tool_result out) | Inl _ \<Rightarrow> None)"

section \<open>Example runs\<close>

text \<open>
  Concrete inputs for the instances below: a meaning of scripts that gives every text
  the same run, one that tells two texts apart, a heuristic with fixed costs per call,
  and three call records (a local call, a bridged call, a local call that failed).
\<close>

definition script_of :: "script_run \<Rightarrow> string \<Rightarrow> script_run" where
  "script_of r code = r"

definition example_heuristic :: heuristic where
  "example_heuristic =
     \<lparr>intermediate_of = (\<lambda>tcs. 40 * int (length tcs)),
      round_trip_of = (\<lambda>tcs. 25 * int (length tcs)),
      overhead_of = (\<lambda>tcs. 10 * int (length tcs)),
      decisions_of = (\<lambda>tcs. 5 * int (length tcs)),
      explanation_of = (\<lambda>tcs. ''per call: 40 + 25 + 10 + 5'')\<rparr>"

definition call_double :: tool_call where
  "call_double =
     \<lparr>toolName = ''double'', args = JObject [(''x'', JNum (NumInt 4))],
      result = JNum (NumInt 8), error = None, isMCP = False, executionTimeMs = 3\<rparr>"

definition call_search :: tool_call where
  "call_search =
     \<lparr>toolName = ''mcp_search'', args = JObject [(''q'', JStr ''vm'')],
      result = JObject [(''success'', JBool True)], error = None, isMCP = True,
      executionTimeMs = 40\<rparr>"

definition call_failed :: tool_call where
  "call_failed =
     \<lparr>toolName = ''getUser'', args = JObject [(''id'', JStr ''u1'')],
      result = JUndefined, error = Some (Error ''not found''), isMCP = False,
      executionTimeMs = 7\<rparr>"

definition example_scripts :: "string \<Rightarrow> script_run" where
  "example_scripts code =
     (if code = ''return 1''
      then \<lparr>calls = [], ending = Returns (JNum (NumInt 1)), settles = Some 2\<rparr>
      else \<lparr>calls = [call_double, call_search, call_double],
            ending = Returns JUndefined, settles = Some 30000\<rparr>)"

lemmas example_defs =
  evaluator_sandbox_def evaluator_execute_def evaluator_reset_def script_of_def
  example_heuristic_def call_double_def call_search_def call_failed_def timeout_ms_def

lemmas run_defs =
  execute_def try_execute_def race_timeout_def serializableOutput_def try_serialize_def
  from_tool_calls_def make_metadata_def estimate_savings_def new_Set_def
  sandboxToolCalls_entry_def json_copy_def

section \<open>Facts about the model\<close>

subsection \<open>Serialization\<close>

lemma js_String_primitive:
  "typeof v \<noteq> ''object'' \<Longrightarrow> \<exists>s. js_String v = Inr s"
  by (cases v) (simp_all add: js_String_def)

lemma js_String_null: "\<exists>s. js_String JNull = Inr s"
  by (simp add: js_String_def)

lemma on_serialize_error_total: "\<exists>v. on_serialize_error out = Inr v"
proof (cases "typeof out = ''object'' \<and> out \<noteq> JNull")
  case True
  then show ?thesis
    by (simp add: on_serialize_error_def split: sum.split)
next
  case False
  then have "\<exists>s. js_String out = Inr s"
    using js_String_primitive js_String_null by blast
  with False show ?thesis
    by (auto simp: on_serialize_error_def)
qed

lemma serializableOutput_total: "\<exists>v. serializableOutput out tcs = Inr v"
  using on_serialize_error_total [of out]
  by (auto simp: serializableOutput_def split: sum.split)

lemma serializableOutput_nullish:
  "out = JUndefined \<or> out = JNull \<Longrightarrow> serializableOutput out tcs = Inr (from_tool_calls tcs)"
  by (auto simp: serializableOutput_def try_serialize_def)

lemma serializableOutput_copy:
  "out \<noteq> JUndefined \<Longrightarrow> out \<noteq> JNull \<Longrightarrow> json_copy out = Inr c \<Longrightarrow>
   serializableOutput out tcs = Inr c"
  by (simp add: serializableOutput_def try_serialize_def)

lemma serializableOutput_failed:
  "out \<noteq> JUndefined \<Longrightarrow> out \<noteq> JNull \<Longrightarrow> json_copy out = Inl e \<Longrightarrow>
   serializableOutput out tcs = on_serialize_error out"
  by (simp add: serializableOutput_def try_serialize_def)

lemma from_tool_calls_single:
  "from_tool_calls [c] =
     (if truthy (result c) then result c
      else JObject [(''success'', JBool (error c = None)), (''message'', JStr ''Tool executed'')])"
  by (simp add: from_tool_calls_def)

lemma from_tool_calls_many:
  "1 < length tcs \<Longrightarrow>
   from_tool_calls tcs =
     JObject [(''message'', JStr (''Executed '' @ show_nat (length tcs) @ '' tool calls'')),
              (''results'', JArray (map allResults_entry tcs)),
              (''lastResult'', result (last tcs))]"
  by (auto simp: from_tool_calls_def)

lemma from_tool_calls_none:
  "from_tool_calls [] =
     JObject [(''message'', JStr ''Code executed but returned no result''), (''success'', JBool True)]"
  by (simp add: from_tool_calls_def)

subsection \<open>The ways out of \<open>execute\<close>\<close>

lemma execute_resolved:
  assumes "sandbox_execute sb code s = (Resolves t r, s1)" and "t < timeout_ms"
    and "serializableOutput (output r) (toolCalls r) = Inr v"
  shows "execute sb code s =
    (Inr \<lparr>tool_result = v,
          tool_metadata = make_metadata (toolCalls r) (getComprehensiveTokenSavings sb s1) t\<rparr>,
     reset sb s1)"
  using assms by (simp add: execute_def try_execute_def race_timeout_def)

lemma execute_failed:
  assumes "sandbox_execute sb code s = (p, s1)" and "race_timeout p = Inl e"
  shows "execute sb code s = (Inl (Error (''Code execution failed: '' @ message e)), reset sb s1)"
  using assms by (simp add: execute_def try_execute_def)

lemma execute_state: "snd (execute sb code s) = reset sb (snd (sandbox_execute sb code s))"
  by (simp add: execute_def split: prod.split)

lemma execute_error_origin:
  assumes "fst (execute sb code s) = Inl err"
  shows "\<exists>e. race_timeout (fst (sandbox_execute sb code s)) = Inl e \<and>
              err = Error (''Code execution failed: '' @ message e)"
proof -
  obtain p s1 where ex: "sandbox_execute sb code s = (p, s1)"
    by (cases "sandbox_execute sb code s")
  show ?thesis
  proof (cases "race_timeout p")
    case (Inl e)
    from execute_failed [OF ex this] assms ex Inl show ?thesis by simp
  next
    case (Inr a)
    obtain r t where a: "a = (r, t)" by (cases a)
    obtain w where w: "serializableOutput (output r) (toolCalls r) = Inr w"
      using serializableOutput_total by blast
    from Inr a w ex have "\<exists>out. fst (execute sb code s) = Inr out"
      by (simp add: execute_def try_execute_def)
    with assms show ?thesis by simp
  qed
qed

subsection \<open>The evaluator\<close>

lemma evaluator_trace:
  "trace (snd (sandbox_execute (evaluator_sandbox sem h) code ev)) = trace ev @ calls (sem code)"
  by (simp add: evaluator_sandbox_def evaluator_execute_def Let_def)

lemma evaluator_reset_trace:
  "trace (reset (evaluator_sandbox sem h) ev) = []"
  by (simp add: evaluator_sandbox_def evaluator_reset_def)

lemma evaluator_throws:
  assumes "ending (sem code) = Throws e" and "settles (sem code) = Some t"
  shows "fst (sandbox_execute (evaluator_sandbox sem h) code ev) = Rejects t e"
  using assms by (simp add: evaluator_sandbox_def evaluator_execute_def Let_def)

lemma evaluator_returns:
  assumes "ending (sem code) = Returns v" and "settles (sem code) = Some t"
  shows "fst (sandbox_execute (evaluator_sandbox sem h) code ev) =
           Resolves t \<lparr>output = v, toolCalls = trace ev @ calls (sem code)\<rparr>"
  using assms by (simp add: evaluator_sandbox_def evaluator_execute_def Let_def)

lemma evaluator_resolves_trace:
  assumes "fst (sandbox_execute (evaluator_sandbox sem h) code ev) = Resolves t r"
  shows "toolCalls r = trace ev @ calls (sem code)"
  using assms
  by (auto simp: evaluator_sandbox_def evaluator_execute_def Let_def
      split: option.splits script_end.splits)

section \<open>The output when the script returns nothing\<close>

text \<open>
  C10. When the script's returned value is \<^verbatim>\<open>undefined\<close> or \<^verbatim>\<open>null\<close> and the run
  recorded no capability call, the tool returns the fixed object
  \<^verbatim>\<open>{ message: 'Code executed but returned no result', success: true }\<close>: a result, not
  an error, and neither a summary nor \<^verbatim>\<open>null\<close>.
\<close>

theorem no_call_output:
  assumes "sandbox_execute sb code s = (Resolves t r, s1)" and "t < timeout_ms"
    and "output r = JUndefined \<or> output r = JNull"
    and "toolCalls r = []"
  shows "\<exists>out. fst (execute sb code s) = Inr out \<and>
           tool_result out =
             JObject [(''message'', JStr ''Code executed but returned no result''),
                      (''success'', JBool True)]"
proof -
  have "serializableOutput (output r) (toolCalls r) = Inr (from_tool_calls [])"
    using assms(3,4) serializableOutput_nullish by simp
  from execute_resolved [OF assms(1,2) this] show ?thesis
    by (simp add: from_tool_calls_none)
qed

theorem no_call_output_witness:
  "\<exists>out. fst (execute (evaluator_sandbox
             (script_of \<lparr>calls = [], ending = Returns JNull, settles = Some 1\<rparr>)
             example_heuristic) ''return null'' \<lparr>trace = []\<rparr>) = Inr out \<and>
         tool_result out =
           JObject [(''message'', JStr ''Code executed but returned no result''),
                    (''success'', JBool True)]"
  using no_call_output [of "evaluator_sandbox
             (script_of \<lparr>calls = [], ending = Returns JNull, settles = Some 1\<rparr>)
             example_heuristic" "''return null''" "\<lparr>trace = []\<rparr>" 1
             "\<lparr>output = JNull, toolCalls = []\<rparr>" "\<lparr>trace = []\<rparr>"]
  by (simp add: example_defs)

text \<open>
  C1, as amended. When the script's returned value is \<^verbatim>\<open>undefined\<close> or \<^verbatim>\<open>null\<close> and
  the run recorded exactly one capability call, the tool's result is that call's recorded
  result whenever this result is truthy; when the call recorded no result
  (\<^verbatim>\<open>undefined\<close> or \<^verbatim>\<open>null\<close>), the tool's result is the object
  \<^verbatim>\<open>{ success: !error, message: 'Tool executed' }\<close>.
\<close>

theorem single_call_output:
  assumes "sandbox_execute sb code s = (Resolves t r, s1)" and "t < timeout_ms"
    and "output r = JUndefined \<or> output r = JNull"
    and "toolCalls r = [c]"
  shows "\<exists>out. fst (execute sb code s) = Inr out \<and>
           (truthy (result c) \<longrightarrow> tool_result out = result c) \<and>
           (result c = JUndefined \<or> result c = JNull \<longrightarrow>
              tool_result out =
                JObject [(''success'', JBool (error c = None)), (''message'', JStr ''Tool executed'')])"
proof -
  have "serializableOutput (output r) (toolCalls r) = Inr (from_tool_calls [c])"
    using assms(3,4) serializableOutput_nullish by simp
  from execute_resolved [OF assms(1,2) this] show ?thesis
    by (auto simp: from_tool_calls_single)
qed

theorem single_call_output_witness:
  "\<exists>out. fst (execute (evaluator_sandbox
             (script_of \<lparr>calls = [call_double], ending = Returns JUndefined, settles = Some 12\<rparr>)
             example_heuristic) ''await double({x: 4})'' \<lparr>trace = []\<rparr>) = Inr out \<and>
         tool_result out = JNum (NumInt 8)"
  using single_call_output [of "evaluator_sandbox
             (script_of \<lparr>calls = [call_double], ending = Returns JUndefined, settles = Some 12\<rparr>)
             example_heuristic" "''await double({x: 4})''" "\<lparr>trace = []\<rparr>" 12
             "\<lparr>output = JUndefined, toolCalls = [call_double]\<rparr>" "\<lparr>trace = [call_double]\<rparr>"
             call_double]
  by (simp add: example_defs)

text \<open>
  The claim as it was stated, that the result equals the single call's result for every
  value including \<^verbatim>\<open>null\<close>, fails for a call whose recorded result is \<^verbatim>\<open>null\<close>:
  line 184 replaces it.
\<close>

theorem single_call_output_counterexample:
  "returned_result (execute (evaluator_sandbox
      (script_of \<lparr>calls = [\<lparr>toolName = ''lookup'', args = JObject [], result = JNull,
                            error = None, isMCP = False, executionTimeMs = 5\<rparr>],
                  ending = Returns JUndefined, settles = Some 12\<rparr>)
      example_heuristic) ''await lookup({})'' \<lparr>trace = []\<rparr>)
   = Some (JObject [(''success'', JBool True), (''message'', JStr ''Tool executed'')]) \<and>
   returned_result (execute (evaluator_sandbox
      (script_of \<lparr>calls = [\<lparr>toolName = ''lookup'', args = JObject [], result = JNull,
                            error = None, isMCP = False, executionTimeMs = 5\<rparr>],
                  ending = Returns JUndefined, settles = Some 12\<rparr>)
      example_heuristic) ''await lookup({})'' \<lparr>trace = []\<rparr>)
   \<noteq> Some JNull"
  by (simp add: returned_result_def execute_def try_execute_def race_timeout_def
      serializableOutput_def try_serialize_def from_tool_calls_def example_defs)

text \<open>
  C2. When the script's returned value is \<^verbatim>\<open>undefined\<close> or \<^verbatim>\<open>null\<close> and the run
  recorded \<open>m > 1\<close> capability calls, the tool's result is a summary object whose
  \<^verbatim>\<open>results\<close> array has exactly \<open>m\<close> entries, one per call and in the order of the
  recorded list, each with the call's tool name, its success flag and its result, and
  whose \<^verbatim>\<open>lastResult\<close> is the result of the last recorded call.
\<close>

theorem multi_call_summary:
  assumes "sandbox_execute sb code s = (Resolves t r, s1)" and "t < timeout_ms"
    and "output r = JUndefined \<or> output r = JNull"
    and "length (toolCalls r) = m" and "1 < m"
  shows "\<exists>out results. fst (execute sb code s) = Inr out \<and>
           tool_result out =
             JObject [(''message'', JStr (''Executed '' @ show_nat m @ '' tool calls'')),
                      (''results'', JArray results),
                      (''lastResult'', result (last (toolCalls r)))] \<and>
           length results = m \<and>
           results =
             map (\<lambda>tc. JObject [(''tool'', JStr (toolName tc)),
                                 (''success'', JBool (error tc = None)),
                                 (''result'', result tc)]) (toolCalls r)"
proof -
  have "serializableOutput (output r) (toolCalls r) = Inr (from_tool_calls (toolCalls r))"
    using assms(3) by (rule serializableOutput_nullish)
  from execute_resolved [OF assms(1,2) this] assms(4,5) show ?thesis
    by (simp add: from_tool_calls_many allResults_entry_def)
qed

theorem multi_call_summary_witness:
  "\<exists>out. fst (execute (evaluator_sandbox
             (script_of \<lparr>calls = [call_double, call_search, call_failed],
                         ending = Returns JUndefined, settles = Some 90\<rparr>)
             example_heuristic) ''await Promise.all([a(), b(), c()])'' \<lparr>trace = []\<rparr>) = Inr out \<and>
         tool_result out =
           JObject [(''message'', JStr ''Executed 3 tool calls''),
                    (''results'', JArray
                       [JObject [(''tool'', JStr ''double''), (''success'', JBool True),
                                 (''result'', JNum (NumInt 8))],
                        JObject [(''tool'', JStr ''mcp_search''), (''success'', JBool True),
                                 (''result'', JObject [(''success'', JBool True)])],
                        JObject [(''tool'', JStr ''getUser''), (''success'', JBool False),
                                 (''result'', JUndefined)]]),
                    (''lastResult'', JUndefined)]"
  using multi_call_summary [of "evaluator_sandbox
             (script_of \<lparr>calls = [call_double, call_search, call_failed],
                         ending = Returns JUndefined, settles = Some 90\<rparr>)
             example_heuristic" "''await Promise.all([a(), b(), c()])''" "\<lparr>trace = []\<rparr>" 90
             "\<lparr>output = JUndefined, toolCalls = [call_double, call_search, call_failed]\<rparr>"
             "\<lparr>trace = [call_double, call_search, call_failed]\<rparr>" 3]
  by (simp add: example_defs show_nat.simps digit_char_def)

section \<open>Failure and timeout\<close>

text \<open>
  C3, as amended. When the script ends in an uncaught error after \<open>j\<close> capability calls
  have completed, the tool returns no output and throws an error whose message is
  \<^verbatim>\<open>Code execution failed: \<close> followed by the message of the thrown error. The \<open>j\<close>
  records are in the evaluator's trace when the error is caught; the reset of the
  \<^verbatim>\<open>finally\<close> block clears them before the error reaches the caller, and the error
  that is thrown carries the message only.
\<close>

theorem script_error_propagates:
  assumes "ending (sem code) = Throws e" and "settles (sem code) = Some t" and "t < timeout_ms"
    and "trace ev = []" and "length (calls (sem code)) = j"
  shows "fst (execute (evaluator_sandbox sem h) code ev) =
           Inl (Error (''Code execution failed: '' @ message e)) \<and>
         trace (snd (sandbox_execute (evaluator_sandbox sem h) code ev)) = calls (sem code) \<and>
         length (trace (snd (sandbox_execute (evaluator_sandbox sem h) code ev))) = j \<and>
         trace (snd (execute (evaluator_sandbox sem h) code ev)) = []"
proof -
  let ?sb = "evaluator_sandbox sem h"
  obtain p s1 where ex: "sandbox_execute ?sb code ev = (p, s1)"
    by (cases "sandbox_execute ?sb code ev")
  have "p = Rejects t e"
    using evaluator_throws [of sem code e t h ev] assms(1,2) ex by simp
  then have "race_timeout p = Inl e"
    using assms(3) by (simp add: race_timeout_def)
  from execute_failed [OF ex this]
  have "fst (execute ?sb code ev) = Inl (Error (''Code execution failed: '' @ message e))"
    by simp
  moreover have "trace (snd (sandbox_execute ?sb code ev)) = calls (sem code)"
    using assms(4) by (simp add: evaluator_trace)
  moreover have "trace (snd (execute ?sb code ev)) = []"
    by (simp add: execute_state evaluator_reset_trace)
  ultimately show ?thesis using assms(5) by simp
qed

theorem script_error_propagates_witness:
  "fst (execute (evaluator_sandbox
      (script_of \<lparr>calls = [call_double, call_search],
                  ending = Throws (TypeError ''x is not a function''), settles = Some 55\<rparr>)
      example_heuristic) ''await double({x: 4}); await mcp_search({q: 1}); x()'' \<lparr>trace = []\<rparr>)
   = Inl (Error ''Code execution failed: x is not a function'') \<and>
   trace (snd (sandbox_execute (evaluator_sandbox
      (script_of \<lparr>calls = [call_double, call_search],
                  ending = Throws (TypeError ''x is not a function''), settles = Some 55\<rparr>)
      example_heuristic) ''await double({x: 4}); await mcp_search({q: 1}); x()'' \<lparr>trace = []\<rparr>))
   = [call_double, call_search] \<and>
   trace (snd (execute (evaluator_sandbox
      (script_of \<lparr>calls = [call_double, call_search],
                  ending = Throws (TypeError ''x is not a function''), settles = Some 55\<rparr>)
      example_heuristic) ''await double({x: 4}); await mcp_search({q: 1}); x()'' \<lparr>trace = []\<rparr>))
   = []"
  using script_error_propagates [of
      "script_of \<lparr>calls = [call_double, call_search],
                  ending = Throws (TypeError ''x is not a function''), settles = Some 55\<rparr>"
      "''await double({x: 4}); await mcp_search({q: 1}); x()''"
      "TypeError ''x is not a function''" 55 "\<lparr>trace = []\<rparr>" 2 example_heuristic]
  by (simp add: script_of_def timeout_ms_def)

text \<open>
  The claim as it was stated has the \<open>j\<close> records remain available once the error has
  propagated. For a script that throws after one call, the trace holds one record when
  the evaluator rejects and none when the tool call is over.
\<close>

theorem script_error_propagates_counterexample:
  "length (trace (snd (sandbox_execute (evaluator_sandbox
      (script_of \<lparr>calls = [\<lparr>toolName = ''lookup'', args = JObject [], result = JNum (NumInt 1),
                            error = None, isMCP = False, executionTimeMs = 5\<rparr>],
                  ending = Throws (Error ''boom''), settles = Some 40\<rparr>)
      example_heuristic) ''await lookup({}); throw new Error('boom')'' \<lparr>trace = []\<rparr>))) = 1 \<and>
   fst (execute (evaluator_sandbox
      (script_of \<lparr>calls = [\<lparr>toolName = ''lookup'', args = JObject [], result = JNum (NumInt 1),
                            error = None, isMCP = False, executionTimeMs = 5\<rparr>],
                  ending = Throws (Error ''boom''), settles = Some 40\<rparr>)
      example_heuristic) ''await lookup({}); throw new Error('boom')'' \<lparr>trace = []\<rparr>)
    = Inl (Error ''Code execution failed: boom'') \<and>
   trace (snd (execute (evaluator_sandbox
      (script_of \<lparr>calls = [\<lparr>toolName = ''lookup'', args = JObject [], result = JNum (NumInt 1),
                            error = None, isMCP = False, executionTimeMs = 5\<rparr>],
                  ending = Throws (Error ''boom''), settles = Some 40\<rparr>)
      example_heuristic) ''await lookup({}); throw new Error('boom')'' \<lparr>trace = []\<rparr>)) = []"
  by (simp add: execute_def try_execute_def race_timeout_def example_defs)

text \<open>
  C4. When the sandbox's promise has not settled within 25000 ms (it settles later, or
  never), the tool throws the timeout error, whatever calls are outstanding, and returns
  no output. The run is not retried: the sandbox is left in the state reached by the one
  call of \<^verbatim>\<open>execute\<close> followed by the reset.
\<close>

theorem timeout_surfaces:
  assumes "sandbox_execute sb code s = (p, s1)"
    and "case p of Resolves t r \<Rightarrow> 25000 < t | Rejects t e \<Rightarrow> 25000 < t | Pending \<Rightarrow> True"
  shows "execute sb code s =
           (Inl (Error ''Code execution failed: Code execution timeout after 25 seconds''),
            reset sb (snd (sandbox_execute sb code s)))"
proof -
  have "race_timeout p = Inl timeout_error"
    using assms(2) by (cases p) (simp_all add: race_timeout_def timeout_ms_def)
  from execute_failed [OF assms(1) this] assms(1) show ?thesis
    by (simp add: timeout_error_def)
qed

theorem timeout_surfaces_witness:
  "execute (evaluator_sandbox
      (script_of \<lparr>calls = [call_double], ending = Returns (JNum (NumInt 8)), settles = Some 26000\<rparr>)
      example_heuristic) ''await sleep(26000); return 8'' \<lparr>trace = []\<rparr>
   = (Inl (Error ''Code execution failed: Code execution timeout after 25 seconds''),
      \<lparr>trace = []\<rparr>)"
  using timeout_surfaces [of "evaluator_sandbox
      (script_of \<lparr>calls = [call_double], ending = Returns (JNum (NumInt 8)), settles = Some 26000\<rparr>)
      example_heuristic" "''await sleep(26000); return 8''" "\<lparr>trace = []\<rparr>"
      "Resolves 26000 \<lparr>output = JNum (NumInt 8), toolCalls = [call_double]\<rparr>"
      "\<lparr>trace = [call_double]\<rparr>"]
  by (simp add: example_defs)

section \<open>Reset\<close>

text \<open>
  C6. On every way out of a run (success, script failure, timeout) the last thing done
  to the sandbox is its reset, before the tool call returns or its error propagates.
  With the evaluator of the spec this leaves an empty trace, so a following run that
  makes no call works on an empty trace and reports no call, whatever the trace was
  before.
\<close>

theorem reset_on_every_path:
  "snd (execute sb code s) = reset sb (snd (sandbox_execute sb code s)) \<and>
   trace (snd (execute (evaluator_sandbox sem h) code ev)) = [] \<and>
   (calls (sem code') = [] \<longrightarrow>
      trace (snd (sandbox_execute (evaluator_sandbox sem h) code'
                    (snd (execute (evaluator_sandbox sem h) code ev)))) = [] \<and>
      (\<forall>t r. fst (sandbox_execute (evaluator_sandbox sem h) code'
                    (snd (execute (evaluator_sandbox sem h) code ev))) = Resolves t r \<longrightarrow>
             toolCalls r = []))"
proof (intro conjI impI allI)
  show "snd (execute sb code s) = reset sb (snd (sandbox_execute sb code s))"
    by (rule execute_state)
  show clean: "trace (snd (execute (evaluator_sandbox sem h) code ev)) = []"
    by (simp add: execute_state evaluator_reset_trace)
  assume zero: "calls (sem code') = []"
  show "trace (snd (sandbox_execute (evaluator_sandbox sem h) code'
                    (snd (execute (evaluator_sandbox sem h) code ev)))) = []"
    by (simp add: evaluator_trace clean zero)
  fix t r
  assume "fst (sandbox_execute (evaluator_sandbox sem h) code'
                    (snd (execute (evaluator_sandbox sem h) code ev))) = Resolves t r"
  from evaluator_resolves_trace [OF this] show "toolCalls r = []"
    by (simp add: clean zero)
qed

theorem reset_on_every_path_witness:
  "calls (example_scripts ''return 1'') = [] \<and>
   trace (snd (execute (evaluator_sandbox example_scripts example_heuristic)
                 ''await Promise.all([...])'' \<lparr>trace = [call_failed]\<rparr>)) = [] \<and>
   sandbox_execute (evaluator_sandbox example_scripts example_heuristic) ''return 1''
     (snd (execute (evaluator_sandbox example_scripts example_heuristic)
                 ''await Promise.all([...])'' \<lparr>trace = [call_failed]\<rparr>))
   = (Resolves 2 \<lparr>output = JNum (NumInt 1), toolCalls = []\<rparr>, \<lparr>trace = []\<rparr>)"
  using reset_on_every_path [of "evaluator_sandbox example_scripts example_heuristic"
      "''await Promise.all([...])''" "\<lparr>trace = [call_failed]\<rparr>" example_scripts example_heuristic
      "\<lparr>trace = [call_failed]\<rparr>" "''return 1''"]
  by (simp add: example_scripts_def evaluator_sandbox_def evaluator_execute_def evaluator_reset_def)

section \<open>Metadata\<close>

subsection \<open>The set of names\<close>

lemma fold_new_Set_set:
  "set (fold (\<lambda>x acc. if x \<in> set acc then acc else acc @ [x]) xs acc) = set acc \<union> set xs"
  by (induction xs arbitrary: acc) auto

lemma fold_new_Set_distinct:
  "distinct acc \<Longrightarrow> distinct (fold (\<lambda>x acc. if x \<in> set acc then acc else acc @ [x]) xs acc)"
  by (induction xs arbitrary: acc) auto

lemma set_new_Set: "set (new_Set xs) = set xs"
  by (simp add: new_Set_def fold_new_Set_set)

lemma distinct_new_Set: "distinct (new_Set xs)"
  by (simp add: new_Set_def fold_new_Set_distinct)

subsection \<open>Token savings\<close>

lemma make_metadata_savings:
  "totalTokensSaved (make_metadata tcs (estimate_savings h tcs') t) =
     intermediateResults (tokenSavingsBreakdown (make_metadata tcs (estimate_savings h tcs') t)) +
     roundTripContext (tokenSavingsBreakdown (make_metadata tcs (estimate_savings h tcs') t)) +
     toolCallOverhead (tokenSavingsBreakdown (make_metadata tcs (estimate_savings h tcs') t)) +
     llmDecisions (tokenSavingsBreakdown (make_metadata tcs (estimate_savings h tcs') t))"
  by (simp add: make_metadata_def estimate_savings_def Let_def)

lemma make_metadata_zero:
  "intermediateResults (tokenSavingsBreakdown (make_metadata tcs (estimate_savings h []) t)) = 0 \<and>
   roundTripContext (tokenSavingsBreakdown (make_metadata tcs (estimate_savings h []) t)) = 0 \<and>
   toolCallOverhead (tokenSavingsBreakdown (make_metadata tcs (estimate_savings h []) t)) = 0 \<and>
   llmDecisions (tokenSavingsBreakdown (make_metadata tcs (estimate_savings h []) t)) = 0 \<and>
   totalTokensSaved (make_metadata tcs (estimate_savings h []) t) = 0"
  by (simp add: make_metadata_def estimate_savings_def Let_def)

lemma make_metadata_count: "toolCallCount (make_metadata tcs sv t) = length tcs"
  by (simp add: make_metadata_def Let_def)

text \<open>
  C7. For every completed run the reported total of saved tokens is the sum of the four
  components of the breakdown (intermediate results, round-trip context, tool-call
  overhead, model decisions), and for a run without capability calls the four components
  and the total are zero.
\<close>

theorem token_savings_total:
  assumes "ending (sem code) = Returns v" and "settles (sem code) = Some t" and "t < timeout_ms"
  shows "\<exists>out. fst (execute (evaluator_sandbox sem h) code ev) = Inr out \<and>
           totalTokensSaved (tool_metadata out) =
             intermediateResults (tokenSavingsBreakdown (tool_metadata out)) +
             roundTripContext (tokenSavingsBreakdown (tool_metadata out)) +
             toolCallOverhead (tokenSavingsBreakdown (tool_metadata out)) +
             llmDecisions (tokenSavingsBreakdown (tool_metadata out)) \<and>
           (toolCallCount (tool_metadata out) = 0 \<longrightarrow>
              intermediateResults (tokenSavingsBreakdown (tool_metadata out)) = 0 \<and>
              roundTripContext (tokenSavingsBreakdown (tool_metadata out)) = 0 \<and>
              toolCallOverhead (tokenSavingsBreakdown (tool_metadata out)) = 0 \<and>
              llmDecisions (tokenSavingsBreakdown (tool_metadata out)) = 0 \<and>
              totalTokensSaved (tool_metadata out) = 0)"
proof -
  let ?sb = "evaluator_sandbox sem h"
  let ?tcs = "trace ev @ calls (sem code)"
  obtain p s1 where ex: "sandbox_execute ?sb code ev = (p, s1)"
    by (cases "sandbox_execute ?sb code ev")
  have p: "p = Resolves t \<lparr>output = v, toolCalls = ?tcs\<rparr>"
    using evaluator_returns [of sem code v t h ev] assms(1,2) ex by simp
  have s1: "trace s1 = ?tcs"
    using evaluator_trace [of sem h code ev] ex by simp
  obtain w where w: "serializableOutput v ?tcs = Inr w"
    using serializableOutput_total by blast
  have sv: "getComprehensiveTokenSavings ?sb s1 = estimate_savings h ?tcs"
    by (simp add: evaluator_sandbox_def s1)
  have "execute ?sb code ev =
      (Inr \<lparr>tool_result = w, tool_metadata = make_metadata ?tcs (estimate_savings h ?tcs) t\<rparr>,
       reset ?sb s1)"
    using execute_resolved [of ?sb code ev t "\<lparr>output = v, toolCalls = ?tcs\<rparr>" s1 w] ex p assms(3) w sv
    by simp
  then have out: "fst (execute ?sb code ev) =
      Inr \<lparr>tool_result = w, tool_metadata = make_metadata ?tcs (estimate_savings h ?tcs) t\<rparr>"
    by simp
  show ?thesis
    unfolding out
    apply (rule exI [of _ "\<lparr>tool_result = w, tool_metadata = make_metadata ?tcs (estimate_savings h ?tcs) t\<rparr>"])
    apply (simp only: simp_thms tool_output.simps)
    apply (rule conjI)
     apply (rule make_metadata_savings)
    apply (rule impI)
    apply (simp only: make_metadata_count length_0_conv)
    using make_metadata_zero [of "[]" h t]
    apply simp
    done
qed

theorem token_savings_total_witness:
  "(\<exists>out. fst (execute (evaluator_sandbox example_scripts example_heuristic) ''return 1''
               \<lparr>trace = []\<rparr>) = Inr out \<and>
         toolCallCount (tool_metadata out) = 0 \<and>
         totalTokensSaved (tool_metadata out) = 0 \<and>
         tokenSavingsBreakdown (tool_metadata out) =
           \<lparr>intermediateResults = 0, roundTripContext = 0, toolCallOverhead = 0, llmDecisions = 0\<rparr>) \<and>
   (\<exists>out. fst (execute (evaluator_sandbox
               (script_of \<lparr>calls = [call_double, call_search], ending = Returns (JBool True),
                           settles = Some 50\<rparr>) example_heuristic) ''...'' \<lparr>trace = []\<rparr>) = Inr out \<and>
         totalTokensSaved (tool_metadata out) = 160 \<and>
         tokenSavingsBreakdown (tool_metadata out) =
           \<lparr>intermediateResults = 80, roundTripContext = 50, toolCallOverhead = 20, llmDecisions = 10\<rparr>)"
  using token_savings_total [of example_scripts "''return 1''" "JNum (NumInt 1)" 2
      example_heuristic "\<lparr>trace = []\<rparr>"]
    token_savings_total [of "script_of \<lparr>calls = [call_double, call_search], ending = Returns (JBool True),
                           settles = Some 50\<rparr>" "''...''" "JBool True" 50
      example_heuristic "\<lparr>trace = []\<rparr>"]
  by (simp add: example_scripts_def example_defs run_defs)

subsection \<open>Counts, names and the per-call trace\<close>

text \<open>
  C8. For every completed run, \<^verbatim>\<open>toolCallCount\<close> is the number of recorded calls and
  equals \<^verbatim>\<open>localToolCallCount\<close> plus \<^verbatim>\<open>mcpToolCallCount\<close>, a call counting as
  bridged exactly when its \<^verbatim>\<open>isMCP\<close> flag is set; \<^verbatim>\<open>toolsUsed\<close> lists the tool names
  of the trace without duplicates; and \<^verbatim>\<open>sandboxToolCalls\<close> has one entry per recorded
  call, in order, with its tool name, arguments, result, error message, origin flag and
  duration.
\<close>

theorem metadata_partition:
  assumes "sandbox_execute sb code s = (Resolves t r, s1)" and "t < timeout_ms"
  shows "\<exists>out. fst (execute sb code s) = Inr out \<and>
           toolCallCount (tool_metadata out) = length (toolCalls r) \<and>
           toolCallCount (tool_metadata out) =
             localToolCallCount (tool_metadata out) + mcpToolCallCount (tool_metadata out) \<and>
           localToolCallCount (tool_metadata out) = length (filter (\<lambda>c. \<not> isMCP c) (toolCalls r)) \<and>
           mcpToolCallCount (tool_metadata out) = length (filter (\<lambda>c. isMCP c) (toolCalls r)) \<and>
           distinct (toolsUsed (tool_metadata out)) \<and>
           set (toolsUsed (tool_metadata out)) = set (map toolName (toolCalls r)) \<and>
           sandboxToolCalls (tool_metadata out) =
             map (\<lambda>c. \<lparr>stc_toolName = toolName c, stc_args = args c, stc_result = result c,
                        stc_error = map_option message (error c), stc_isMCP = isMCP c,
                        stc_executionTimeMs = executionTimeMs c\<rparr>) (toolCalls r)"
proof -
  obtain w where w: "serializableOutput (output r) (toolCalls r) = Inr w"
    using serializableOutput_total by blast
  have part: "length (toolCalls r) =
      length (filter (\<lambda>c. \<not> isMCP c) (toolCalls r)) + length (filter (\<lambda>c. isMCP c) (toolCalls r))"
    using sum_length_filter_compl [of "\<lambda>c. isMCP c" "toolCalls r"] by simp
  from execute_resolved [OF assms w] show ?thesis
    using part
    by (simp add: make_metadata_def Let_def set_new_Set distinct_new_Set sandboxToolCalls_entry_def)
qed

theorem metadata_partition_witness:
  "\<exists>out. fst (execute (evaluator_sandbox
               (script_of \<lparr>calls = [call_double, call_search, call_double],
                           ending = Returns (JBool True), settles = Some 50\<rparr>)
               example_heuristic) ''...'' \<lparr>trace = []\<rparr>) = Inr out \<and>
         toolCallCount (tool_metadata out) = 3 \<and>
         localToolCallCount (tool_metadata out) = 2 \<and>
         mcpToolCallCount (tool_metadata out) = 1 \<and>
         toolsUsed (tool_metadata out) = [''double'', ''mcp_search''] \<and>
         map stc_toolName (sandboxToolCalls (tool_metadata out)) =
           [''double'', ''mcp_search'', ''double'']"
  using metadata_partition [of "evaluator_sandbox
               (script_of \<lparr>calls = [call_double, call_search, call_double],
                           ending = Returns (JBool True), settles = Some 50\<rparr>)
               example_heuristic" "''...''" "\<lparr>trace = []\<rparr>" 50
               "\<lparr>output = JBool True, toolCalls = [call_double, call_search, call_double]\<rparr>"
               "\<lparr>trace = [call_double, call_search, call_double]\<rparr>"]
  by (simp add: example_defs run_defs)

section \<open>Serialization of the output\<close>

lemma safe_properties_Cons:
  "safe_properties ((k, v) # es) =
     (case json_copy v of
        Inr c \<Rightarrow> (case safe_properties es of Inl e \<Rightarrow> Inl e
                  | Inr vs \<Rightarrow> Inr (if k = ''__proto__'' then vs else (k, c) # vs))
      | Inl _ \<Rightarrow>
          (case js_String v of
             Inl e \<Rightarrow> Inl e
           | Inr s \<Rightarrow> (case safe_properties es of Inl e \<Rightarrow> Inl e
                       | Inr vs \<Rightarrow> Inr (if k = ''__proto__'' then vs else (k, JStr s) # vs))))"
  by (simp split: sum.split)

lemma safe_properties_succeeds:
  assumes "\<forall>(k, v) \<in> set es. isl (json_copy v) \<longrightarrow> \<not> isl (js_String v)"
  shows "\<exists>fs. safe_properties es = Inr fs \<and>
           list_all2 (\<lambda>(k, v) (k', w). k' = k \<and>
                        (case json_copy v of
                           Inr c \<Rightarrow> w = c
                         | Inl _ \<Rightarrow> (\<exists>str. js_String v = Inr str \<and> w = JStr str)))
             (filter (\<lambda>(k, v). k \<noteq> ''__proto__'') es) fs"
  using assms
proof (induction es)
  case Nil
  then show ?case by simp
next
  case (Cons a es)
  obtain k v where a: "a = (k, v)" by (cases a)
  from Cons.prems have "\<forall>(k, v) \<in> set es. isl (json_copy v) \<longrightarrow> \<not> isl (js_String v)"
    by simp
  from Cons.IH [OF this] obtain fs where
    fs: "safe_properties es = Inr fs"
      "list_all2 (\<lambda>(k, v) (k', w). k' = k \<and>
                        (case json_copy v of
                           Inr c \<Rightarrow> w = c
                         | Inl _ \<Rightarrow> (\<exists>str. js_String v = Inr str \<and> w = JStr str)))
             (filter (\<lambda>(k, v). k \<noteq> ''__proto__'') es) fs"
    by blast
  show ?case
  proof (cases "json_copy v")
    case (Inr c)
    with fs a show ?thesis
      by (simp add: safe_properties_Cons del: safe_properties.simps)
  next
    case (Inl e)
    with Cons.prems a obtain str where "js_String v = Inr str"
      by (cases "js_String v") auto
    with Inl fs a show ?thesis
      by (simp add: safe_properties_Cons del: safe_properties.simps)
  qed
qed

lemma safe_properties_fails:
  assumes "\<not> (\<forall>(k, v) \<in> set es. isl (json_copy v) \<longrightarrow> \<not> isl (js_String v))"
  shows "\<exists>e. safe_properties es = Inl e"
  using assms
proof (induction es)
  case Nil
  then show ?case by simp
next
  case (Cons a es)
  obtain k v where a: "a = (k, v)" by (cases a)
  show ?case
  proof (cases "isl (json_copy v) \<and> isl (js_String v)")
    case True
    then show ?thesis
      unfolding a by (auto simp: safe_properties_Cons isl_def simp del: safe_properties.simps)
  next
    case False
    with Cons.prems a have "\<not> (\<forall>(k, v) \<in> set es. isl (json_copy v) \<longrightarrow> \<not> isl (js_String v))"
      by auto
    from Cons.IH [OF this] obtain e where "safe_properties es = Inl e" by blast
    then show ?thesis
      unfolding a by (auto simp: safe_properties_Cons simp del: safe_properties.simps split: sum.split)
  qed
qed

lemma serializableOutput_cases:
  assumes w: "serializableOutput out tcs = Inr res"
    and nn: "out \<noteq> JUndefined" "out \<noteq> JNull"
  shows
    "(case json_copy out of
        Inr c \<Rightarrow> res = c
      | Inl _ \<Rightarrow>
          (if typeof out = ''object'' then
             (if \<forall>(k, v) \<in> set (object_entries out).
                   isl (json_copy v) \<longrightarrow> \<not> isl (js_String v)
              then \<exists>fs. res = JObject fs \<and>
                     list_all2 (\<lambda>(k, v) (k', w). k' = k \<and>
                         (case json_copy v of
                            Inr c \<Rightarrow> w = c
                          | Inl _ \<Rightarrow> (\<exists>str. js_String v = Inr str \<and> w = JStr str)))
                       (filter (\<lambda>(k, v). k \<noteq> ''__proto__'') (object_entries out)) fs
              else res =
                     JObject [(''message'', JStr ''Output contained non-serializable data''),
                              (''type'', JStr ''object''),
                              (''keys'', JArray (map JStr (object_keys out)))])
           else \<exists>str. js_String out = Inr str \<and>
                  res = JObject [(''value'', JStr str), (''type'', JStr (typeof out))]))"
proof (cases "json_copy out")
  case (Inr c)
  with nn w serializableOutput_copy [of out c tcs] show ?thesis by simp
next
  case (Inl e)
  with nn w serializableOutput_failed [of out e tcs]
  have ose: "on_serialize_error out = Inr res" by simp
  show ?thesis
  proof (cases "typeof out = ''object''")
    case True
    note obj = this
    show ?thesis
    proof (cases "\<forall>(k, v) \<in> set (object_entries out).
                      isl (json_copy v) \<longrightarrow> \<not> isl (js_String v)")
      case True
      from safe_properties_succeeds [OF True] obtain fs where
        fs: "safe_properties (object_entries out) = Inr fs"
          "list_all2 (\<lambda>(k, v) (k', w). k' = k \<and>
                         (case json_copy v of
                            Inr c \<Rightarrow> w = c
                          | Inl _ \<Rightarrow> (\<exists>str. js_String v = Inr str \<and> w = JStr str)))
                       (filter (\<lambda>(k, v). k \<noteq> ''__proto__'') (object_entries out)) fs"
        by blast
      from ose obj nn fs(1) have "res = JObject fs"
        by (simp add: on_serialize_error_def)
      with fs(2) Inl obj True show ?thesis by simp
    next
      case False
      from safe_properties_fails [OF False] obtain e' where
        "safe_properties (object_entries out) = Inl e'" by blast
      with ose obj nn
      have "res = JObject [(''message'', JStr ''Output contained non-serializable data''),
                           (''type'', JStr ''object''),
                           (''keys'', JArray (map JStr (object_keys out)))]"
        by (simp add: on_serialize_error_def)
      then show ?thesis
        by (simp only: Inl sum.case obj False simp_thms if_True if_False)
    qed
  next
    case False
    then obtain str where str: "js_String out = Inr str"
      using js_String_primitive by blast
    with ose False
    have "res = JObject [(''value'', JStr str), (''type'', JStr (typeof out))]"
      by (simp add: on_serialize_error_def)
    with Inl False str show ?thesis by simp
  qed
qed

text \<open>
  C5. Serializing the output never raises to the caller: an error that leaves the tool
  is the script's error or the timeout, rethrown, and a run that completes always
  returns a result. For an output other than \<^verbatim>\<open>undefined\<close> and \<^verbatim>\<open>null\<close>: a value
  that survives the round-trip copy is returned as that copy; otherwise an object (or
  array) is returned property by property, each property being its own copy or, where
  that copy throws, the string \<^verbatim>\<open>String(value)\<close>; if this fails as well, the result is
  the diagnostic object with the message, the type and the key names. A value that is
  not an object is replaced by its string and its type.
\<close>

theorem serialization_never_raises:
  "(\<forall>err. fst (execute sb code s) = Inl err \<longrightarrow>
      (\<exists>e. race_timeout (fst (sandbox_execute sb code s)) = Inl e \<and>
           err = Error (''Code execution failed: '' @ message e))) \<and>
   (sandbox_execute sb code s = (Resolves t r, s1) \<and> t < timeout_ms \<longrightarrow>
      (\<exists>out. fst (execute sb code s) = Inr out \<and>
         (output r \<noteq> JUndefined \<and> output r \<noteq> JNull \<longrightarrow>
            (case json_copy (output r) of
              Inr c \<Rightarrow> tool_result out = c
            | Inl _ \<Rightarrow>
                (if typeof (output r) = ''object'' then
                   (if \<forall>(k, v) \<in> set (object_entries (output r)).
                         isl (json_copy v) \<longrightarrow> \<not> isl (js_String v)
                    then \<exists>fs. tool_result out = JObject fs \<and>
                           list_all2 (\<lambda>(k, v) (k', w). k' = k \<and>
                               (case json_copy v of
                                  Inr c \<Rightarrow> w = c
                                | Inl _ \<Rightarrow> (\<exists>str. js_String v = Inr str \<and> w = JStr str)))
                             (filter (\<lambda>(k, v). k \<noteq> ''__proto__'') (object_entries (output r))) fs
                    else tool_result out =
                           JObject [(''message'', JStr ''Output contained non-serializable data''),
                                    (''type'', JStr ''object''),
                                    (''keys'', JArray (map JStr (object_keys (output r))))])
                 else \<exists>str. js_String (output r) = Inr str \<and>
                        tool_result out = JObject [(''value'', JStr str), (''type'', JStr (typeof (output r)))])))))"
proof (intro conjI allI impI)
  fix err assume "fst (execute sb code s) = Inl err"
  then show "\<exists>e. race_timeout (fst (sandbox_execute sb code s)) = Inl e \<and>
           err = Error (''Code execution failed: '' @ message e)"
    by (rule execute_error_origin)
next
  assume a: "sandbox_execute sb code s = (Resolves t r, s1) \<and> t < timeout_ms"
  obtain res where res: "serializableOutput (output r) (toolCalls r) = Inr res"
    using serializableOutput_total by blast
  let ?out = "\<lparr>tool_result = res,
          tool_metadata = make_metadata (toolCalls r) (getComprehensiveTokenSavings sb s1) t\<rparr>"
  have ex: "fst (execute sb code s) = Inr ?out"
    using execute_resolved [of sb code s t r s1 res] a res by simp
  have sel: "tool_result ?out = res" by simp
  show "\<exists>out. fst (execute sb code s) = Inr out \<and>
         (output r \<noteq> JUndefined \<and> output r \<noteq> JNull \<longrightarrow>
            (case json_copy (output r) of
              Inr c \<Rightarrow> tool_result out = c
            | Inl _ \<Rightarrow>
                (if typeof (output r) = ''object'' then
                   (if \<forall>(k, v) \<in> set (object_entries (output r)).
                         isl (json_copy v) \<longrightarrow> \<not> isl (js_String v)
                    then \<exists>fs. tool_result out = JObject fs \<and>
                           list_all2 (\<lambda>(k, v) (k', w). k' = k \<and>
                               (case json_copy v of
                                  Inr c \<Rightarrow> w = c
                                | Inl _ \<Rightarrow> (\<exists>str. js_String v = Inr str \<and> w = JStr str)))
                             (filter (\<lambda>(k, v). k \<noteq> ''__proto__'') (object_entries (output r))) fs
                    else tool_result out =
                           JObject [(''message'', JStr ''Output contained non-serializable data''),
                                    (''type'', JStr ''object''),
                                    (''keys'', JArray (map JStr (object_keys (output r))))])
                 else \<exists>str. js_String (output r) = Inr str \<and>
                        tool_result out = JObject [(''value'', JStr str), (''type'', JStr (typeof (output r)))])))"
    apply (rule exI [of _ ?out])
    apply (rule conjI)
     apply (rule ex)
    apply (unfold sel)
    apply (rule impI)
    apply (erule conjE)
    apply (rule serializableOutput_cases [OF res])
     apply assumption+
    done
qed

theorem serialization_never_raises_witness:
  "(\<exists>out. fst (execute (evaluator_sandbox
               (script_of \<lparr>calls = [call_double],
                           ending = Returns (JObject [(''total'', JBigInt 12),
                                                      (''name'', JStr ''vm''),
                                                      (''ids'', JArray [JBigInt 1, JNull, JNum (NumInt 2)]),
                                                      (''cb'', JFunction ''() => 1'')]),
                           settles = Some 50\<rparr>)
               example_heuristic) ''...'' \<lparr>trace = []\<rparr>) = Inr out \<and>
          tool_result out = JObject [(''total'', JStr ''12''), (''name'', JStr ''vm''),
                                     (''ids'', JStr ''1,,2''), (''cb'', JStr ''() => 1'')]) \<and>
   (\<exists>out. fst (execute (evaluator_sandbox
               (script_of \<lparr>calls = [call_double],
                           ending = Returns (JObject [(''ids'', JArray [JSymbol ''s'', JBigInt 1])]),
                           settles = Some 50\<rparr>)
               example_heuristic) ''...'' \<lparr>trace = []\<rparr>) = Inr out \<and>
          tool_result out = JObject [(''message'', JStr ''Output contained non-serializable data''),
                                     (''type'', JStr ''object''),
                                     (''keys'', JArray [JStr ''ids''])])"
  using serialization_never_raises [of "evaluator_sandbox
               (script_of \<lparr>calls = [call_double],
                           ending = Returns (JObject [(''total'', JBigInt 12),
                                                      (''name'', JStr ''vm''),
                                                      (''ids'', JArray [JBigInt 1, JNull, JNum (NumInt 2)]),
                                                      (''cb'', JFunction ''() => 1'')]),
                           settles = Some 50\<rparr>)
               example_heuristic" "''...''" "\<lparr>trace = []\<rparr>" 50
               "\<lparr>output = JObject [(''total'', JBigInt 12),
                                                      (''name'', JStr ''vm''),
                                                      (''ids'', JArray [JBigInt 1, JNull, JNum (NumInt 2)]),
                                                      (''cb'', JFunction ''() => 1'')], toolCalls = [call_double]\<rparr>"
               "\<lparr>trace = [call_double]\<rparr>"]
   serialization_never_raises [of "evaluator_sandbox
               (script_of \<lparr>calls = [call_double],
                           ending = Returns (JObject [(''ids'', JArray [JSymbol ''s'', JBigInt 1])]),
                           settles = Some 50\<rparr>)
               example_heuristic" "''...''" "\<lparr>trace = []\<rparr>" 50
               "\<lparr>output = JObject [(''ids'', JArray [JSymbol ''s'', JBigInt 1])], toolCalls = [call_double]\<rparr>"
               "\<lparr>trace = [call_double]\<rparr>"]
  by (simp add: example_defs run_defs on_serialize_error_def js_String_def object_keys_def
      show_int_def show_nat.simps digit_char_def)

section \<open>The registry of local tools\<close>

lemma register_tools_names:
  "snd (register_tools ts (reg, names)) =
     names @ map fst (filter (\<lambda>(name, d). tool_execute d \<noteq> None \<and> \<not> startsWith name ''mcp_'') ts)"
proof (induction ts arbitrary: reg names)
  case Nil
  then show ?case by simp
next
  case (Cons a ts)
  obtain k d where a: "a = (k, d)" by (cases a)
  show ?case
    unfolding a by (cases "tool_execute d") (simp_all add: Cons.IH)
qed

lemma register_tools_other:
  "name \<notin> fst ` set ts \<Longrightarrow> fst (register_tools ts (reg, names)) name = reg name"
proof (induction ts arbitrary: reg names)
  case Nil
  then show ?case by simp
next
  case (Cons a ts)
  obtain k d where a: "a = (k, d)" by (cases a)
  from Cons.prems a have "name \<noteq> k" and "name \<notin> fst ` set ts" by auto
  then show ?case
    unfolding a by (cases "tool_execute d") (simp_all add: Cons.IH)
qed

lemma register_tools_registry:
  "distinct (map fst ts) \<Longrightarrow>
   fst (register_tools ts (reg, names)) name = Some f \<longleftrightarrow>
     (\<exists>d. (name, d) \<in> set ts \<and> tool_execute d = Some f \<and> \<not> startsWith name ''mcp_'') \<or>
     (\<not> (\<exists>d g. (name, d) \<in> set ts \<and> tool_execute d = Some g \<and> \<not> startsWith name ''mcp_'') \<and>
      reg name = Some f)"
proof (induction ts arbitrary: reg names)
  case Nil
  then show ?case by simp
next
  case (Cons a ts)
  obtain k d where a: "a = (k, d)" by (cases a)
  from Cons.prems a have k: "k \<notin> fst ` set ts" and dist: "distinct (map fst ts)"
    by auto
  from k have k': "\<And>d'. (k, d') \<notin> set ts"
    by (auto simp: image_iff)
  show ?case
  proof (cases "\<exists>g. tool_execute d = Some g \<and> \<not> startsWith k ''mcp_''")
    case True
    then obtain g where g: "tool_execute d = Some g" "\<not> startsWith k ''mcp_''" by blast
    then have step: "register_tools (a # ts) (reg, names) = register_tools ts (reg(k \<mapsto> g), names @ [k])"
      using a by simp
    show ?thesis
    proof (cases "name = k")
      case True
      have "fst (register_tools ts (reg(k \<mapsto> g), names @ [k])) k = Some g"
        using register_tools_other [OF k] by simp
      moreover have "\<And>d'. (k, d') \<in> set (a # ts) \<longleftrightarrow> d' = d"
        using a k' by auto
      ultimately show ?thesis
        unfolding step True using g by auto
    next
      case False
      have m: "\<And>d'. (name, d') \<in> set (a # ts) \<longleftrightarrow> (name, d') \<in> set ts"
        using False a by auto
      have r: "(reg(k \<mapsto> g)) name = reg name"
        using False by simp
      show ?thesis
        using Cons.IH [OF dist, of "reg(k \<mapsto> g)" "names @ [k]"]
        by (simp only: step m r)
    qed
  next
    case False
    then have step: "register_tools (a # ts) (reg, names) = register_tools ts (reg, names)"
      using a by (cases "tool_execute d") auto
    have m: "\<And>d' g. (name, d') \<in> set (a # ts) \<and> tool_execute d' = Some g \<and> \<not> startsWith name ''mcp_'' \<longleftrightarrow>
        (name, d') \<in> set ts \<and> tool_execute d' = Some g \<and> \<not> startsWith name ''mcp_''"
      using False a by auto
    show ?thesis
      using Cons.IH [OF dist, of reg names]
      by (simp only: step m)
  qed
qed

lemma createMCPBridge_names:
  "(case createMCPBridge ts of Some b \<Rightarrow> getToolNames b | None \<Rightarrow> []) =
     filter (\<lambda>name. startsWith name ''mcp_'') (map fst ts)"
  by (simp add: createMCPBridge_def Let_def)

lemma constructor_fields:
  "localToolNames (constructor ts) = snd (register_tools ts (Map.empty, []))"
  "toolRegistry (constructor ts) = fst (register_tools ts (Map.empty, []))"
  "mcpToolNames (constructor ts) = (case createMCPBridge ts of Some b \<Rightarrow> getToolNames b | None \<Rightarrow> [])"
  by (simp_all add: constructor_def Let_def split: prod.split)

text \<open>
  C9. For every tool set handed to the constructor, the local registry holds exactly the
  tools that have an \<^verbatim>\<open>execute\<close> function and whose name does not start with
  \<^verbatim>\<open>mcp_\<close>, each under its name and with its own function; the local names and the
  bridged names have no name in common; and \<^verbatim>\<open>getAllToolNames\<close> returns the local
  names followed by the bridged names. The names of a tool set are distinct, being the
  keys of an object.
\<close>

theorem constructor_registry:
  assumes "distinct (map fst ts)"
  shows "localToolNames (constructor ts) =
           map fst (filter (\<lambda>(name, d). tool_execute d \<noteq> None \<and> \<not> startsWith name ''mcp_'') ts) \<and>
         (\<forall>name f. toolRegistry (constructor ts) name = Some f \<longleftrightarrow>
            (\<exists>d. (name, d) \<in> set ts \<and> tool_execute d = Some f \<and> \<not> startsWith name ''mcp_'')) \<and>
         dom (toolRegistry (constructor ts)) = set (localToolNames (constructor ts)) \<and>
         set (localToolNames (constructor ts)) \<inter> set (mcpToolNames (constructor ts)) = {} \<and>
         getAllToolNames (constructor ts) =
           localToolNames (constructor ts) @ mcpToolNames (constructor ts)"
proof -
  have names: "localToolNames (constructor ts) =
      map fst (filter (\<lambda>(name, d). tool_execute d \<noteq> None \<and> \<not> startsWith name ''mcp_'') ts)"
    using register_tools_names [of ts Map.empty "[]"]
    by (simp add: constructor_fields)
  have reg: "toolRegistry (constructor ts) name = Some f \<longleftrightarrow>
      (\<exists>d. (name, d) \<in> set ts \<and> tool_execute d = Some f \<and> \<not> startsWith name ''mcp_'')" for name f
    using register_tools_registry [OF assms, of Map.empty "[]" name f]
    by (simp add: constructor_fields)
  have mcp: "mcpToolNames (constructor ts) = filter (\<lambda>name. startsWith name ''mcp_'') (map fst ts)"
    by (simp add: constructor_fields createMCPBridge_names)
  have dom: "dom (toolRegistry (constructor ts)) = set (localToolNames (constructor ts))"
  proof
    show "dom (toolRegistry (constructor ts)) \<subseteq> set (localToolNames (constructor ts))"
      unfolding names by (force simp: reg dom_def image_iff)
    show "set (localToolNames (constructor ts)) \<subseteq> dom (toolRegistry (constructor ts))"
      unfolding names by (fastforce simp: reg dom_def)
  qed
  have disj: "set (localToolNames (constructor ts)) \<inter> set (mcpToolNames (constructor ts)) = {}"
    unfolding names mcp by auto
  show ?thesis
    using names reg dom disj by (simp add: getAllToolNames_def)
qed

theorem constructor_registry_witness:
  "distinct (map fst [(''getUser'', \<lparr>tool_execute = Some (1::nat)\<rparr>),
                      (''mcp_search'', \<lparr>tool_execute = Some 2\<rparr>),
                      (''notes'', \<lparr>tool_execute = None\<rparr>)]) \<and>
   localToolNames (constructor [(''getUser'', \<lparr>tool_execute = Some (1::nat)\<rparr>),
                      (''mcp_search'', \<lparr>tool_execute = Some 2\<rparr>),
                      (''notes'', \<lparr>tool_execute = None\<rparr>)]) = [''getUser''] \<and>
   mcpToolNames (constructor [(''getUser'', \<lparr>tool_execute = Some (1::nat)\<rparr>),
                      (''mcp_search'', \<lparr>tool_execute = Some 2\<rparr>),
                      (''notes'', \<lparr>tool_execute = None\<rparr>)]) = [''mcp_search''] \<and>
   getAllToolNames (constructor [(''getUser'', \<lparr>tool_execute = Some (1::nat)\<rparr>),
                      (''mcp_search'', \<lparr>tool_execute = Some 2\<rparr>),
                      (''notes'', \<lparr>tool_execute = None\<rparr>)]) = [''getUser'', ''mcp_search''] \<and>
   toolRegistry (constructor [(''getUser'', \<lparr>tool_execute = Some (1::nat)\<rparr>),
                      (''mcp_search'', \<lparr>tool_execute = Some 2\<rparr>),
                      (''notes'', \<lparr>tool_execute = None\<rparr>)]) ''getUser'' = Some 1 \<and>
   toolRegistry (constructor [(''getUser'', \<lparr>tool_execute = Some (1::nat)\<rparr>),
                      (''mcp_search'', \<lparr>tool_execute = Some 2\<rparr>),
                      (''notes'', \<lparr>tool_execute = None\<rparr>)]) ''mcp_search'' = None"
  using constructor_registry [of "[(''getUser'', \<lparr>tool_execute = Some (1::nat)\<rparr>),
                      (''mcp_search'', \<lparr>tool_execute = Some 2\<rparr>),
                      (''notes'', \<lparr>tool_execute = None\<rparr>)]"]
  by (simp add: constructor_def createMCPBridge_def getAllToolNames_def startsWith_def)

end
